theory Spec2Isabelle
  imports Complex_Main
begin

section \<open>Python values used by the framework\<close>

text \<open>
  Exceptions are values: every \<^verbatim>\<open>raise\<close> of the source, and every exception the
  interpreter or numpy raises on the paths modelled here, is a constructor carrying the
  message. A method of a mutable object returns the outcome together with the object as
  the call leaves it, so that what an exception leaves behind can be stated.
\<close>

datatype pyerr =
    TypeError string
  | ValueError string
  | AttributeError string
  | IndexError string
  | ZeroDivisionError string

text \<open>
  A numpy array is its shape and its elements in row-major order. The float64 elements
  are modelled as real numbers: arithmetic is exact, rounding is not modelled.
\<close>

record 'a ndarray =
  shape :: "nat list"
  flat :: "'a list"

definition wf_ndarray :: "'a ndarray \<Rightarrow> bool" where
  "wf_ndarray a = (length (flat a) = prod_list (shape a))"

text \<open>\<^verbatim>\<open>t[i]\<close> on a shape tuple: negative indices count from the end.\<close>

definition shape_at :: "nat list \<Rightarrow> int \<Rightarrow> pyerr + nat" where
  "shape_at s i =
     (if 0 \<le> i \<and> i < int (length s) then Inr (s ! nat i)
      else if i < 0 \<and> - i \<le> int (length s) then Inr (s ! nat (int (length s) + i))
      else Inl (IndexError ''tuple index out of range''))"

text \<open>numpy broadcasting of two shapes, aligned at the trailing dimension.\<close>

fun broadcast_rev :: "nat list \<Rightarrow> nat list \<Rightarrow> nat list option" where
  "broadcast_rev [] ys = Some ys"
| "broadcast_rev xs [] = Some xs"
| "broadcast_rev (x # xs) (y # ys) =
     (if x = y then map_option ((#) x) (broadcast_rev xs ys)
      else if x = 1 then map_option ((#) y) (broadcast_rev xs ys)
      else if y = 1 then map_option ((#) x) (broadcast_rev xs ys)
      else None)"

definition broadcast_shapes :: "nat list \<Rightarrow> nat list \<Rightarrow> nat list option" where
  "broadcast_shapes s t = map_option rev (broadcast_rev (rev s) (rev t))"

text \<open>
  The elements of an array of shape \<open>s\<close> seen at the (compatible) shape given last:
  missing leading dimensions and dimensions of extent one are repeated.
\<close>

fun broadcast_to :: "nat list \<Rightarrow> 'a list \<Rightarrow> nat list \<Rightarrow> 'a list" where
  "broadcast_to s xs [] = xs"
| "broadcast_to s xs (n # t) =
     (if length s < Suc (length t) then concat (replicate n (broadcast_to s xs t))
      else case s of
        [] \<Rightarrow> xs
      | m # s' \<Rightarrow>
          if m = 1 then concat (replicate n (broadcast_to s' xs t))
          else concat (map (\<lambda>i. broadcast_to s' (take (prod_list s') (drop (i * prod_list s') xs)) t)
                 [0..<n]))"

text \<open>\<^verbatim>\<open>np.where(cond, x, 0)\<close>\<close>

definition np_where0 :: "bool ndarray \<Rightarrow> real ndarray \<Rightarrow> pyerr + real ndarray" where
  "np_where0 c x =
     (case broadcast_shapes (shape c) (shape x) of
        None \<Rightarrow> Inl (ValueError ''operands could not be broadcast together'')
      | Some s \<Rightarrow>
          Inr \<lparr>shape = s,
               flat = map2 (\<lambda>b v. if b then v else 0)
                        (broadcast_to (shape c) (flat c) s)
                        (broadcast_to (shape x) (flat x) s)\<rparr>)"

text \<open>\<^verbatim>\<open>a / k\<close> and \<^verbatim>\<open>a > k\<close> for a scalar \<open>k\<close>, elementwise.\<close>

definition np_divide :: "real ndarray \<Rightarrow> real \<Rightarrow> real ndarray" where
  "np_divide a k = \<lparr>shape = shape a, flat = map (\<lambda>v. v / k) (flat a)\<rparr>"

definition np_greater :: "real ndarray \<Rightarrow> real \<Rightarrow> bool ndarray" where
  "np_greater a k = \<lparr>shape = shape a, flat = map (\<lambda>v. k < v) (flat a)\<rparr>"

text \<open>
  A random generator is the sequence of the uniform draws it will produce.
  \<^verbatim>\<open>generator.random(size=s)\<close> takes one draw per element and advances.
\<close>

type_synonym rng = "nat \<Rightarrow> real"

definition rng_random :: "rng \<Rightarrow> nat list \<Rightarrow> real ndarray \<times> rng" where
  "rng_random g s =
     (\<lparr>shape = s, flat = map g [0..<prod_list s]\<rparr>, \<lambda>i. g (i + prod_list s))"

text \<open>\<^verbatim>\<open>str(n)\<close> for an integer.\<close>

fun str_nat :: "nat \<Rightarrow> string" where
  "str_nat n = (if n < 10 then [''0123456789'' ! n] else str_nat (n div 10) @ [''0123456789'' ! (n mod 10)])"

definition str_int :: "int \<Rightarrow> string" where
  "str_int i = (if i < 0 then CHR ''-'' # str_nat (nat (- i)) else str_nat (nat i))"

section \<open>layers/dropout.py\<close>

record dropout =
  IS_TRAINABLE :: bool
  is_compiled :: bool
  network_id :: "string option"
  RATE :: real
  units :: "int option"
  generator :: rng
  dropout_filter :: "bool ndarray option"

text \<open>
  Modelled from the spec: the base class \<^verbatim>\<open>Layer\<close> (layers/layer.py) is not among the
  sources. Its initialiser is taken to store the trainable flag it is given, to leave the
  layer not compiled and to leave the network id unset, as the spec's data model says.
  The generator a new layer draws from is a parameter.
\<close>

definition Dropout_init :: "real \<Rightarrow> rng \<Rightarrow> pyerr + dropout" where
  "Dropout_init rate g =
     (if \<not> (0 < rate \<and> rate < 1) then Inl (ValueError ''Dropout rate must be between 0 and 1.'')
      else Inr \<lparr>IS_TRAINABLE = False, is_compiled = False, network_id = None, RATE = rate,
                units = None, generator = g, dropout_filter = None\<rparr>)"

definition compile :: "dropout \<Rightarrow> int \<Rightarrow> int \<Rightarrow> (pyerr + unit) \<times> dropout" where
  "compile self layer_idx input_units =
     (if layer_idx < 1 then (Inl (ValueError ''Layer index must be greater than zero.''), self)
      else if input_units < 1 then (Inl (ValueError ''Input units must be greater than zero.''), self)
      else (Inr (),
            self\<lparr>units := Some input_units,
                 network_id := Some (''Dropout'' @ str_int layer_idx),
                 is_compiled := True\<rparr>))"

definition forward :: "dropout \<Rightarrow> real ndarray \<Rightarrow> bool \<Rightarrow> (pyerr + real ndarray) \<times> dropout" where
  "forward self layer_inputs in_training =
     (if \<not> is_compiled self then (Inl (AttributeError ''Number of units must be defined.''), self)
      else case shape_at (shape layer_inputs) (- 1) of
        Inl e \<Rightarrow> (Inl e, self)
      | Inr d \<Rightarrow>
          if Some (int d) \<noteq> units self
          then (Inl (ValueError ''Number of input units must be consistent.''), self)
          else if in_training then
            (case rng_random (generator self) (shape layer_inputs) of
               (filter_values, g') \<Rightarrow>
                 let self1 = self\<lparr>generator := g'\<rparr>;
                     dropout_filter = np_greater filter_values (RATE self)
                 in (case np_where0 dropout_filter layer_inputs of
                       Inl e \<Rightarrow> (Inl e, self1)
                     | Inr filtered_inputs \<Rightarrow>
                         (Inr (np_divide filtered_inputs (1 - RATE self)),
                          self1\<lparr>dropout_filter := Some dropout_filter\<rparr>)))
          else (Inr layer_inputs, self))"

text \<open>
  A filter that was never cached is \<^verbatim>\<open>None\<close>, which \<^verbatim>\<open>np.where\<close> reads as a
  zero-dimensional false condition.
\<close>

definition backward :: "dropout \<Rightarrow> real ndarray \<Rightarrow> (pyerr + real ndarray) \<times> dropout" where
  "backward self output_grads =
     (if \<not> is_compiled self then (Inl (AttributeError ''Number of units must be defined.''), self)
      else case shape_at (shape output_grads) 1 of
        Inl e \<Rightarrow> (Inl e, self)
      | Inr d \<Rightarrow>
          if Some (int d) \<noteq> units self
          then (Inl (ValueError ''Number of input units must be consistent.''), self)
          else
            let rescaled_grads = np_divide output_grads (1 - RATE self);
                cond = (case dropout_filter self of
                          None \<Rightarrow> \<lparr>shape = [], flat = [False]\<rparr>
                        | Some f \<Rightarrow> f)
            in (np_where0 cond rescaled_grads, self))"

section \<open>model.py\<close>

text \<open>
  The layer classes other than Dropout (the input layer, the dense layer), the function
  \<^verbatim>\<open>layers.verify_layer\<close> and the loss classes are not among the sources. A layer of
  such a class is a value of the type parameter \<open>'l\<close>, and what its methods do is a
  parameter: each method takes the positional arguments of the call and returns the
  outcome with the layer as the call leaves it. The same record says what the absent base
  class gives a Dropout: whether \<^verbatim>\<open>verify_layer\<close> accepts it, what reading its
  attribute \<^verbatim>\<open>UNITS\<close> yields (Dropout itself only ever assigns \<^verbatim>\<open>units\<close>), and what
  an inherited \<^verbatim>\<open>update\<close> does.
\<close>

record 'l extern =
  ext_verify :: "'l \<Rightarrow> bool"
  ext_is_input :: "'l \<Rightarrow> bool"
  ext_UNITS :: "'l \<Rightarrow> pyerr + int"
  ext_IS_TRAINABLE :: "'l \<Rightarrow> bool"
  ext_compile :: "'l \<Rightarrow> int list \<Rightarrow> (pyerr + unit) \<times> 'l"
  ext_forward :: "'l \<Rightarrow> real ndarray \<Rightarrow> bool list \<Rightarrow> (pyerr + real ndarray) \<times> 'l"
  ext_backward :: "'l \<Rightarrow> real ndarray \<Rightarrow> (pyerr + real ndarray) \<times> 'l"
  ext_update :: "'l \<Rightarrow> real \<Rightarrow> (pyerr + unit) \<times> 'l"
  dropout_verify :: "dropout \<Rightarrow> bool"
  dropout_UNITS :: "dropout \<Rightarrow> pyerr + int"
  dropout_update :: "dropout \<Rightarrow> real \<Rightarrow> (pyerr + unit) \<times> dropout"

record loss =
  calculate :: "real ndarray \<Rightarrow> real ndarray \<Rightarrow> pyerr + real"
  gradate :: "real ndarray \<Rightarrow> real ndarray \<Rightarrow> pyerr + real ndarray"

datatype 'l layer = DropoutL dropout | ExtL 'l

record 'l model =
  LOSS :: loss
  LAYERS :: "'l layer list"

text \<open>
  Attribute reads and method calls on a layer, dispatched on its class. A call binds its
  positional arguments to the parameters of the method as the source declares them:
  \<^verbatim>\<open>Dropout.compile(self, layer_idx, input_units)\<close> and
  \<^verbatim>\<open>Dropout.forward(self, layer_inputs, in_training)\<close> have no defaults, so a call with
  fewer or more arguments raises \<^verbatim>\<open>TypeError\<close> before the body runs.
\<close>

definition verify_layer :: "'l extern \<Rightarrow> 'l layer \<Rightarrow> bool" where
  "verify_layer env layer =
     (case layer of DropoutL d \<Rightarrow> dropout_verify env d | ExtL l \<Rightarrow> ext_verify env l)"

definition is_InputLayer :: "'l extern \<Rightarrow> 'l layer \<Rightarrow> bool" where
  "is_InputLayer env layer =
     (case layer of DropoutL d \<Rightarrow> False | ExtL l \<Rightarrow> ext_is_input env l)"

definition layer_UNITS :: "'l extern \<Rightarrow> 'l layer \<Rightarrow> pyerr + int" where
  "layer_UNITS env layer =
     (case layer of DropoutL d \<Rightarrow> dropout_UNITS env d | ExtL l \<Rightarrow> ext_UNITS env l)"

definition layer_IS_TRAINABLE :: "'l extern \<Rightarrow> 'l layer \<Rightarrow> bool" where
  "layer_IS_TRAINABLE env layer =
     (case layer of DropoutL d \<Rightarrow> IS_TRAINABLE d | ExtL l \<Rightarrow> ext_IS_TRAINABLE env l)"

definition layer_compile :: "'l extern \<Rightarrow> 'l layer \<Rightarrow> int list \<Rightarrow> (pyerr + unit) \<times> 'l layer" where
  "layer_compile env layer args =
     (case layer of
        DropoutL d \<Rightarrow>
          (case args of
             [layer_idx, input_units] \<Rightarrow> map_prod id DropoutL (compile d layer_idx input_units)
           | [] \<Rightarrow> (Inl (TypeError ''compile() missing 2 required positional arguments''), layer)
           | [a] \<Rightarrow> (Inl (TypeError ''compile() missing 1 required positional argument: input_units''), layer)
           | _ \<Rightarrow> (Inl (TypeError ''compile() takes 3 positional arguments but more were given''), layer))
      | ExtL l \<Rightarrow> map_prod id ExtL (ext_compile env l args))"

definition layer_forward ::
  "'l extern \<Rightarrow> 'l layer \<Rightarrow> real ndarray \<Rightarrow> bool list \<Rightarrow> (pyerr + real ndarray) \<times> 'l layer" where
  "layer_forward env layer inputs flags =
     (case layer of
        DropoutL d \<Rightarrow>
          (case flags of
             [in_training] \<Rightarrow> map_prod id DropoutL (forward d inputs in_training)
           | [] \<Rightarrow> (Inl (TypeError ''forward() missing 1 required positional argument: in_training''), layer)
           | _ \<Rightarrow> (Inl (TypeError ''forward() takes 3 positional arguments but more were given''), layer))
      | ExtL l \<Rightarrow> map_prod id ExtL (ext_forward env l inputs flags))"

definition layer_backward ::
  "'l extern \<Rightarrow> 'l layer \<Rightarrow> real ndarray \<Rightarrow> (pyerr + real ndarray) \<times> 'l layer" where
  "layer_backward env layer grads =
     (case layer of
        DropoutL d \<Rightarrow> map_prod id DropoutL (backward d grads)
      | ExtL l \<Rightarrow> map_prod id ExtL (ext_backward env l grads))"

definition layer_update :: "'l extern \<Rightarrow> 'l layer \<Rightarrow> real \<Rightarrow> (pyerr + unit) \<times> 'l layer" where
  "layer_update env layer learning_rate =
     (case layer of
        DropoutL d \<Rightarrow> map_prod id DropoutL (dropout_update env d learning_rate)
      | ExtL l \<Rightarrow> map_prod id ExtL (ext_update env l learning_rate))"

subsection \<open>Model.__init__\<close>

text \<open>The first loop of the constructor: the checks on the layer types, by position.\<close>

fun check_layers :: "'l extern \<Rightarrow> nat \<Rightarrow> 'l layer list \<Rightarrow> pyerr + unit" where
  "check_layers env layer_idx [] = Inr ()"
| "check_layers env layer_idx (layer # rest) =
     (if \<not> verify_layer env layer then Inl (TypeError ''Model layer arguments must be layers.'')
      else if layer_idx \<noteq> 0 \<and> is_InputLayer env layer
        then Inl (ValueError ''Input layers can only the first layer.'')
      else if layer_idx = 0 \<and> \<not> is_InputLayer env layer
        then Inl (ValueError ''The first layer must be an input layer.'')
      else check_layers env (Suc layer_idx) rest)"

text \<open>
  The second loop: every layer but the first is compiled with one argument, the
  attribute \<^verbatim>\<open>UNITS\<close> of the layer before it, read when the loop reaches the layer.
\<close>

definition connect_layer :: "'l extern \<Rightarrow> 'l layer list \<Rightarrow> nat \<Rightarrow> pyerr + 'l layer list" where
  "connect_layer env model_layers layer_idx =
     (if layer_idx = 0 then Inr model_layers
      else case layer_UNITS env (model_layers ! (layer_idx - 1)) of
        Inl e \<Rightarrow> Inl e
      | Inr w \<Rightarrow>
          (case layer_compile env (model_layers ! layer_idx) [w] of
             (Inl e, l') \<Rightarrow> Inl e
           | (Inr u, l') \<Rightarrow> Inr (model_layers[layer_idx := l'])))"

fun connect_layers :: "'l extern \<Rightarrow> 'l layer list \<Rightarrow> nat list \<Rightarrow> pyerr + 'l layer list" where
  "connect_layers env model_layers [] = Inr model_layers"
| "connect_layers env model_layers (layer_idx # rest) =
     (case connect_layer env model_layers layer_idx of
        Inl e \<Rightarrow> Inl e
      | Inr model_layers' \<Rightarrow> connect_layers env model_layers' rest)"

definition Model_init :: "'l extern \<Rightarrow> loss \<Rightarrow> 'l layer list \<Rightarrow> pyerr + 'l model" where
  "Model_init env loss model_layers =
     (case check_layers env 0 model_layers of
        Inl e \<Rightarrow> Inl e
      | Inr u \<Rightarrow>
          (case connect_layers env model_layers [0..<length model_layers] of
             Inl e \<Rightarrow> Inl e
           | Inr ls \<Rightarrow> Inr \<lparr>LOSS = loss, LAYERS = ls\<rparr>))"

subsection \<open>Model.predict\<close>

text \<open>Every layer's forward is called with the propagated inputs as its only argument.\<close>

fun predict_layers ::
  "'l extern \<Rightarrow> 'l layer list \<Rightarrow> real ndarray \<Rightarrow> (pyerr + real ndarray) \<times> 'l layer list" where
  "predict_layers env [] inputs_propagated = (Inr inputs_propagated, [])"
| "predict_layers env (layer # rest) inputs_propagated =
     (case layer_forward env layer inputs_propagated [] of
        (Inl e, layer') \<Rightarrow> (Inl e, layer' # rest)
      | (Inr outputs, layer') \<Rightarrow>
          (case predict_layers env rest outputs of (r, rest') \<Rightarrow> (r, layer' # rest')))"


subsection \<open>Model.fit\<close>

text \<open>
  \<^verbatim>\<open>a[indices]\<close> with an array of row indices, and \<^verbatim>\<open>a[lower: upper]\<close>, both along
  the first axis. An index array reaching past the rows raises; a slice is clipped.
\<close>

definition take_rows :: "'a ndarray \<Rightarrow> nat list \<Rightarrow> pyerr + 'a ndarray" where
  "take_rows a indices =
     (case shape a of
        [] \<Rightarrow> Inl (IndexError ''too many indices for array'')
      | n # rest \<Rightarrow>
          if list_ex (\<lambda>i. n \<le> i) indices then Inl (IndexError ''index is out of bounds for axis 0'')
          else Inr \<lparr>shape = length indices # rest,
                    flat = concat (map (\<lambda>i. take (prod_list rest) (drop (i * prod_list rest) (flat a)))
                                   indices)\<rparr>)"

definition slice_rows :: "'a ndarray \<Rightarrow> nat \<Rightarrow> nat \<Rightarrow> pyerr + 'a ndarray" where
  "slice_rows a lower upper =
     (case shape a of
        [] \<Rightarrow> Inl (IndexError ''too many indices for array'')
      | n # rest \<Rightarrow>
          Inr \<lparr>shape = (min upper n - min lower n) # rest,
               flat = take ((min upper n - min lower n) * prod_list rest)
                        (drop (min lower n * prod_list rest) (flat a))\<rparr>)"

text \<open>
  \<^verbatim>\<open>np.empty(epochs)\<close>: the history before it is filled holds whatever the memory held,
  a parameter of the model.
\<close>

definition np_empty :: "nat \<Rightarrow> (nat \<Rightarrow> real) \<Rightarrow> real list" where
  "np_empty n garbage = map garbage [0..<n]"

text \<open>Lines 91 to 93: the batch size the loops use.\<close>

definition effective_batch_size :: "nat \<Rightarrow> int \<Rightarrow> int" where
  "effective_batch_size n_examples batch_size =
     (if real n_examples / 2 < real_of_int batch_size then int n_examples else batch_size)"

text \<open>\<^verbatim>\<open>range(n_examples // batch_size)\<close>\<close>

definition batch_range :: "nat \<Rightarrow> int \<Rightarrow> pyerr + nat list" where
  "batch_range n_examples batch_size =
     (if batch_size = 0 then Inl (ZeroDivisionError ''integer division or modulo by zero'')
      else Inr [0..<nat (int n_examples div batch_size)])"

text \<open>The backward pass visits the layers last to first; the update pass first to last.\<close>

fun backward_reversed ::
  "'l extern \<Rightarrow> 'l layer list \<Rightarrow> real ndarray \<Rightarrow> (pyerr + real ndarray) \<times> 'l layer list" where
  "backward_reversed env [] propagated_gradients = (Inr propagated_gradients, [])"
| "backward_reversed env (layer # rest) propagated_gradients =
     (case layer_backward env layer propagated_gradients of
        (Inl e, layer') \<Rightarrow> (Inl e, layer' # rest)
      | (Inr grads, layer') \<Rightarrow>
          (case backward_reversed env rest grads of (r, rest') \<Rightarrow> (r, layer' # rest')))"

definition backward_layers ::
  "'l extern \<Rightarrow> 'l layer list \<Rightarrow> real ndarray \<Rightarrow> (pyerr + real ndarray) \<times> 'l layer list" where
  "backward_layers env ls output_gradients =
     (case backward_reversed env (rev ls) output_gradients of (r, rls) \<Rightarrow> (r, rev rls))"

fun update_layers :: "'l extern \<Rightarrow> 'l layer list \<Rightarrow> real \<Rightarrow> (pyerr + unit) \<times> 'l layer list" where
  "update_layers env [] learning_rate = (Inr (), [])"
| "update_layers env (layer # rest) learning_rate =
     (if layer_IS_TRAINABLE env layer then
        (case layer_update env layer learning_rate of
           (Inl e, layer') \<Rightarrow> (Inl e, layer' # rest)
         | (Inr u, layer') \<Rightarrow>
             (case update_layers env rest learning_rate of (r, rest') \<Rightarrow> (r, layer' # rest')))
      else (case update_layers env rest learning_rate of (r, rest') \<Rightarrow> (r, layer # rest')))"

text \<open>Lines 107 to 125: one step of batch descent.\<close>

definition fit_batch ::
  "'l extern \<Rightarrow> loss \<Rightarrow> real ndarray \<Rightarrow> real ndarray \<Rightarrow> int \<Rightarrow> real \<Rightarrow> nat \<Rightarrow> 'l layer list
     \<Rightarrow> (pyerr + unit) \<times> 'l layer list" where
  "fit_batch env loss permuted_examples permuted_labels batch_size learning_rate batch ls =
     (let lower_idx = nat (batch_size * int batch);
          upper_idx = nat (batch_size * (int batch + 1))
      in case slice_rows permuted_examples lower_idx upper_idx of
        Inl e \<Rightarrow> (Inl e, ls)
      | Inr batch_examples \<Rightarrow>
      (case slice_rows permuted_labels lower_idx upper_idx of
        Inl e \<Rightarrow> (Inl e, ls)
      | Inr batch_labels \<Rightarrow>
      (case predict_layers env ls batch_examples of
        (Inl e, ls1) \<Rightarrow> (Inl e, ls1)
      | (Inr batch_outputs, ls1) \<Rightarrow>
      (case gradate loss batch_outputs batch_labels of
        Inl e \<Rightarrow> (Inl e, ls1)
      | Inr output_gradients \<Rightarrow>
      (case backward_layers env ls1 output_gradients of
        (Inl e, ls2) \<Rightarrow> (Inl e, ls2)
      | (Inr propagated_gradients, ls2) \<Rightarrow> update_layers env ls2 learning_rate)))))"

fun fit_batches ::
  "'l extern \<Rightarrow> loss \<Rightarrow> real ndarray \<Rightarrow> real ndarray \<Rightarrow> int \<Rightarrow> real \<Rightarrow> nat list \<Rightarrow> 'l layer list
     \<Rightarrow> (pyerr + unit) \<times> 'l layer list" where
  "fit_batches env loss pe pl batch_size learning_rate [] ls = (Inr (), ls)"
| "fit_batches env loss pe pl batch_size learning_rate (batch # rest) ls =
     (case fit_batch env loss pe pl batch_size learning_rate batch ls of
        (Inl e, ls') \<Rightarrow> (Inl e, ls')
      | (Inr u, ls') \<Rightarrow> fit_batches env loss pe pl batch_size learning_rate rest ls')"

text \<open>
  Lines 101 to 111: the shuffle of one epoch and its batches. The permutation the
  generator returns in an epoch is an input of the model.
\<close>

definition epoch_batches ::
  "'l extern \<Rightarrow> loss \<Rightarrow> real ndarray \<Rightarrow> real ndarray \<Rightarrow> nat \<Rightarrow> int \<Rightarrow> real \<Rightarrow> nat list
     \<Rightarrow> 'l layer list \<Rightarrow> (pyerr + unit) \<times> 'l layer list" where
  "epoch_batches env loss examples labels n_examples batch_size learning_rate shuffling_indices ls =
     (case take_rows examples shuffling_indices of
        Inl e \<Rightarrow> (Inl e, ls)
      | Inr permuted_examples \<Rightarrow>
      (case take_rows labels shuffling_indices of
        Inl e \<Rightarrow> (Inl e, ls)
      | Inr permuted_labels \<Rightarrow>
      (case batch_range n_examples batch_size of
        Inl e \<Rightarrow> (Inl e, ls)
      | Inr batches \<Rightarrow>
          fit_batches env loss permuted_examples permuted_labels batch_size learning_rate batches ls)))"

text \<open>Lines 127 to 130: the metric of the epoch.\<close>

definition epoch_loss ::
  "'l extern \<Rightarrow> loss \<Rightarrow> real ndarray \<Rightarrow> real ndarray \<Rightarrow> 'l layer list \<Rightarrow> (pyerr + real) \<times> 'l layer list" where
  "epoch_loss env loss examples labels ls =
     (case predict_layers env ls examples of
        (Inl e, ls') \<Rightarrow> (Inl e, ls')
      | (Inr current_outputs, ls') \<Rightarrow>
          (case calculate loss current_outputs labels of
             Inl e \<Rightarrow> (Inl e, ls')
           | Inr current_loss \<Rightarrow> (Inr current_loss, ls')))"

fun fit_epochs ::
  "'l extern \<Rightarrow> loss \<Rightarrow> real ndarray \<Rightarrow> real ndarray \<Rightarrow> nat \<Rightarrow> int \<Rightarrow> real \<Rightarrow> (nat \<Rightarrow> nat list)
     \<Rightarrow> nat list \<Rightarrow> real list \<Rightarrow> 'l layer list \<Rightarrow> (pyerr + real list) \<times> 'l layer list" where
  "fit_epochs env loss examples labels n_examples batch_size learning_rate perms [] training_history ls =
     (Inr training_history, ls)"
| "fit_epochs env loss examples labels n_examples batch_size learning_rate perms (epoch # rest)
       training_history ls =
     (case epoch_batches env loss examples labels n_examples batch_size learning_rate (perms epoch) ls of
        (Inl e, ls1) \<Rightarrow> (Inl e, ls1)
      | (Inr u, ls1) \<Rightarrow>
          (case epoch_loss env loss examples labels ls1 of
             (Inl e, ls2) \<Rightarrow> (Inl e, ls2)
           | (Inr current_loss, ls2) \<Rightarrow>
               fit_epochs env loss examples labels n_examples batch_size learning_rate perms rest
                 (training_history[epoch := current_loss]) ls2))"

definition fit ::
  "'l extern \<Rightarrow> 'l model \<Rightarrow> real ndarray \<Rightarrow> real ndarray \<Rightarrow> int \<Rightarrow> int \<Rightarrow> real
     \<Rightarrow> (nat \<Rightarrow> nat list) \<Rightarrow> (nat \<Rightarrow> real) \<Rightarrow> (pyerr + real list) \<times> 'l model" where
  "fit env self examples labels batch_size epochs learning_rate perms garbage =
     (if batch_size < 1 then (Inl (ValueError ''Batch size must be positive.''), self)
      else if epochs < 1 then (Inl (ValueError ''Epochs must be positive.''), self)
      else case shape_at (shape examples) 0 of
        Inl e \<Rightarrow> (Inl e, self)
      | Inr n_examples \<Rightarrow>
          (case fit_epochs env (LOSS self) examples labels n_examples
                  (effective_batch_size n_examples batch_size) learning_rate perms
                  [0..<nat epochs] (np_empty (nat epochs) garbage) (LAYERS self) of
             (r, ls) \<Rightarrow> (r, self\<lparr>LAYERS := ls\<rparr>)))"



section \<open>Concrete layers, models and data for evaluation\<close>

text \<open>
  A generator whose draws alternate between 0.9 and 0.1, a Dropout layer of rate 0.5 as
  its initialiser leaves it, the same layer compiled at position 1 for two units, and
  that layer after one training-mode forward call on a 1 x 2 input.
\<close>

definition ex_rng :: rng where
  "ex_rng i = (if even i then 9 / 10 else 1 / 10)"

definition ex_new :: dropout where
  "ex_new = \<lparr>IS_TRAINABLE = False, is_compiled = False, network_id = None, RATE = 1 / 2,
              units = None, generator = ex_rng, dropout_filter = None\<rparr>"

definition ex_layer :: dropout where
  "ex_layer = \<lparr>IS_TRAINABLE = False, is_compiled = True, network_id = Some ''Dropout1'',
                RATE = 1 / 2, units = Some 2, generator = ex_rng, dropout_filter = None\<rparr>"

definition ex_trained :: dropout where
  "ex_trained = ex_layer\<lparr>generator := (\<lambda>i. ex_rng (i + 2)),
                          dropout_filter := Some \<lparr>shape = [1, 2], flat = [True, False]\<rparr>\<rparr>"


text \<open>
  Modelled from the spec: the input layer class (layers/input_layer.py) and the loss
  classes are not among the sources. The input layer is taken to be the sentinel the spec
  describes, carrying the declared input width as \<^verbatim>\<open>UNITS\<close>: accepted by
  \<^verbatim>\<open>verify_layer\<close>, not trainable, passing arrays through unchanged in both directions.
  A Dropout is accepted by \<^verbatim>\<open>verify_layer\<close> and has neither \<^verbatim>\<open>UNITS\<close> nor
  \<^verbatim>\<open>update\<close>, which its class never defines. The loss is the sum of squared errors.
\<close>

datatype input_layer = InputLayer int

definition ex_env :: "input_layer extern" where
  "ex_env = \<lparr>ext_verify = (\<lambda>l. True), ext_is_input = (\<lambda>l. True),
             ext_UNITS = (\<lambda>l. case l of InputLayer w \<Rightarrow> Inr w),
             ext_IS_TRAINABLE = (\<lambda>l. False),
             ext_compile = (\<lambda>l args. (Inr (), l)),
             ext_forward = (\<lambda>l inputs flags. (Inr inputs, l)),
             ext_backward = (\<lambda>l grads. (Inr grads, l)),
             ext_update = (\<lambda>l learning_rate. (Inr (), l)),
             dropout_verify = (\<lambda>d. True),
             dropout_UNITS = (\<lambda>d. Inl (AttributeError ''Dropout object has no attribute UNITS'')),
             dropout_update = (\<lambda>d learning_rate. (Inl (AttributeError ''Dropout object has no attribute update''), d))\<rparr>"

definition ex_loss :: loss where
  "ex_loss = \<lparr>calculate = (\<lambda>outputs labels. Inr (sum_list (map2 (\<lambda>a b. (a - b) * (a - b)) (flat outputs) (flat labels)))),
              gradate = (\<lambda>outputs labels. Inr \<lparr>shape = shape outputs, flat = map2 (\<lambda>a b. 2 * (a - b)) (flat outputs) (flat labels)\<rparr>)\<rparr>"

definition ex_examples :: "real ndarray" where
  "ex_examples = \<lparr>shape = [2, 2], flat = [1, 2, 3, 4]\<rparr>"

definition ex_labels :: "real ndarray" where
  "ex_labels = \<lparr>shape = [2, 2], flat = [1, 0, 0, 4]\<rparr>"

definition ex_empty :: "real ndarray" where
  "ex_empty = \<lparr>shape = [0, 2], flat = []\<rparr>"

definition ex_model :: "input_layer model" where
  "ex_model = \<lparr>LOSS = ex_loss, LAYERS = [ExtL (InputLayer 2)]\<rparr>"

definition ex_dropout_model :: "input_layer model" where
  "ex_dropout_model = \<lparr>LOSS = ex_loss, LAYERS = [ExtL (InputLayer 2), DropoutL ex_layer]\<rparr>"

section \<open>Properties of the arrays\<close>

lemma chunk_le: "i < n \<Longrightarrow> c + i * c \<le> n * (c::nat)"
proof -
  assume "i < n"
  then have "Suc i * c \<le> n * c" by (intro mult_le_mono1) simp
  then show ?thesis by simp
qed

lemma concat_chunks:
  "length xs = n * c \<Longrightarrow> concat (map (\<lambda>i. take c (drop (i * c) xs)) [0..<n]) = xs"
proof (induction n arbitrary: xs)
  case 0
  then show ?case by simp
next
  case (Suc n)
  have eq: "map (\<lambda>i. take c (drop (i * c) xs)) [0..<n]
          = map (\<lambda>i. take c (drop (i * c) (take (n * c) xs))) [0..<n]"
  proof (rule map_cong[OF refl])
    fix i assume "i \<in> set [0..<n]"
    then have "c + i * c \<le> n * c" by (simp add: chunk_le)
    then have "min c (n * c - i * c) = c" by simp
    then show "take c (drop (i * c) xs) = take c (drop (i * c) (take (n * c) xs))"
      by (simp add: drop_take)
  qed
  have "length (take (n * c) xs) = n * c" using Suc.prems by simp
  then have "concat (map (\<lambda>i. take c (drop (i * c) (take (n * c) xs))) [0..<n]) = take (n * c) xs"
    by (rule Suc.IH)
  then have "concat (map (\<lambda>i. take c (drop (i * c) xs)) [0..<n]) = take (n * c) xs"
    by (simp only: eq)
  moreover have "take c (drop (n * c) xs) = drop (n * c) xs"
    using Suc.prems by simp
  ultimately show ?case by simp
qed

lemma broadcast_to_same:
  "length xs = prod_list s \<Longrightarrow> broadcast_to s xs s = xs"
proof (induction s arbitrary: xs)
  case Nil
  then show ?case by simp
next
  case (Cons n t)
  show ?case
  proof (cases "n = 1")
    case True
    with Cons show ?thesis by simp
  next
    case False
    have "\<And>i. i < n \<Longrightarrow> broadcast_to t (take (prod_list t) (drop (i * prod_list t) xs)) t
        = take (prod_list t) (drop (i * prod_list t) xs)"
    proof -
      fix i assume "i < n"
      then have "Suc i * prod_list t \<le> length xs" using Cons.prems
        by (metis Suc_leI mult_le_mono1 prod_list.Cons)
      then have "length (take (prod_list t) (drop (i * prod_list t) xs)) = prod_list t"
        by simp
      then show "broadcast_to t (take (prod_list t) (drop (i * prod_list t) xs)) t
        = take (prod_list t) (drop (i * prod_list t) xs)" by (rule Cons.IH)
    qed
    then have eq: "map (\<lambda>i. broadcast_to t (take (prod_list t) (drop (i * prod_list t) xs)) t) [0..<n]
       = map (\<lambda>i. take (prod_list t) (drop (i * prod_list t) xs)) [0..<n]"
      by simp
    have "broadcast_to (n # t) xs (n # t)
        = concat (map (\<lambda>i. broadcast_to t (take (prod_list t) (drop (i * prod_list t) xs)) t) [0..<n])"
      using False by simp
    also have "\<dots> = concat (map (\<lambda>i. take (prod_list t) (drop (i * prod_list t) xs)) [0..<n])"
      by (simp only: eq)
    also have "\<dots> = xs" using Cons.prems by (intro concat_chunks) simp
    finally show ?thesis .
  qed
qed

lemma broadcast_rev_same: "broadcast_rev s s = Some s"
  by (induction s) auto

lemma broadcast_shapes_same: "broadcast_shapes s s = Some s"
  by (simp add: broadcast_shapes_def broadcast_rev_same)

lemma np_where0_same:
  assumes "shape c = shape x" "wf_ndarray c" "wf_ndarray x"
  shows "np_where0 c x = Inr \<lparr>shape = shape x, flat = map2 (\<lambda>b v. if b then v else 0) (flat c) (flat x)\<rparr>"
  using assms by (simp add: np_where0_def broadcast_shapes_same broadcast_to_same wf_ndarray_def)


lemmas ex_simps = ex_env_def ex_loss_def ex_examples_def ex_labels_def ex_empty_def ex_model_def
  ex_dropout_model_def

lemmas layer_simps = verify_layer_def is_InputLayer_def layer_UNITS_def layer_IS_TRAINABLE_def
  layer_compile_def layer_forward_def layer_backward_def layer_update_def

lemma ex_new_init: "Dropout_init (1 / 2) ex_rng = Inr ex_new"
  by (simp add: Dropout_init_def ex_new_def)

lemma ex_layer_compile: "compile ex_new 1 2 = (Inr (), ex_layer)"
  by (simp add: compile_def ex_new_def ex_layer_def str_int_def)

lemma ex_forward:
  "forward ex_layer \<lparr>shape = [1, 2], flat = [1, 1]\<rparr> True
     = (Inr \<lparr>shape = [1, 2], flat = [2, 0]\<rparr>, ex_trained)"
  by (simp add: forward_def ex_layer_def ex_trained_def shape_at_def rng_random_def np_greater_def
      np_where0_def broadcast_shapes_def np_divide_def ex_rng_def upt_conv_Cons Let_def)


lemma ex_trained_filter:
  "dropout_filter ex_trained = Some \<lparr>shape = [1, 2], flat = [True, False]\<rparr>"
  by (simp add: ex_trained_def)

lemma ex_backward_zero:
  "backward ex_trained \<lparr>shape = [1, 2], flat = [0, 5]\<rparr>
     = (Inr \<lparr>shape = [1, 2], flat = [0, 0]\<rparr>, ex_trained)"
  by (simp add: ex_trained_def ex_layer_def backward_def shape_at_def np_divide_def
      np_where0_def broadcast_shapes_def Let_def upt_conv_Cons)

lemma ex_backward_broadcast:
  "backward ex_trained \<lparr>shape = [2, 2], flat = [1, 2, 3, 4]\<rparr>
     = (Inr \<lparr>shape = [2, 2], flat = [2, 0, 6, 0]\<rparr>, ex_trained)"
  by (simp add: ex_trained_def ex_layer_def backward_def shape_at_def np_divide_def
      np_where0_def broadcast_shapes_def Let_def upt_conv_Cons numeral_2_eq_2)

section \<open>Properties of the Dropout layer\<close>

text \<open>
  Claim C10. \<^verbatim>\<open>Dropout.compile\<close> is atomic on error: called with a layer index below 1
  or with input units below 1 it raises (a \<^verbatim>\<open>ValueError\<close>) and leaves the layer as it
  was, so units, the network id and the compiled flag keep their prior values.
\<close>

theorem compile_atomic:
  "layer_idx < 1 \<or> input_units < 1 \<Longrightarrow>
     \<exists>msg. compile self layer_idx input_units = (Inl (ValueError msg), self)"
  by (auto simp: compile_def)

theorem compile_atomic_witness:
  "((0::int) < 1 \<or> (2::int) < 1) \<and>
   (\<exists>msg. compile ex_new 0 2 = (Inl (ValueError msg), ex_new)) \<and> \<not> is_compiled ex_new"
  using compile_atomic[of 0 2 ex_new] by (simp add: ex_new_def)

text \<open>
  Claim C6. On a compiled Dropout, a forward call with \<^verbatim>\<open>in_training\<close> false on an
  input whose trailing dimension equals the units returns the input itself and leaves the
  layer, its cached filter included, untouched.
\<close>

theorem forward_inference:
  assumes "is_compiled self" and "shape_at (shape x) (- 1) = Inr d" and "units self = Some (int d)"
  shows "forward self x False = (Inr x, self)"
  using assms by (simp add: forward_def)

theorem forward_inference_witness:
  "is_compiled ex_trained \<and> shape_at (shape \<lparr>shape = [3, 2], flat = [1, 2, 3, 4, 5, 6 :: real]\<rparr>) (- 1) = Inr 2
   \<and> units ex_trained = Some (int 2)
   \<and> forward ex_trained \<lparr>shape = [3, 2], flat = [1, 2, 3, 4, 5, 6]\<rparr> False
       = (Inr \<lparr>shape = [3, 2], flat = [1, 2, 3, 4, 5, 6]\<rparr>, ex_trained)"
proof -
  have c: "is_compiled ex_trained" and u: "units ex_trained = Some (int 2)"
    by (simp_all add: ex_trained_def ex_layer_def)
  have s: "shape_at (shape \<lparr>shape = [3, 2], flat = [1, 2, 3, 4, 5, 6 :: real]\<rparr>) (- 1) = Inr 2"
    by (simp add: shape_at_def)
  show ?thesis using c s u forward_inference[OF c s u] by simp
qed

text \<open>
  The training branch of \<^verbatim>\<open>forward\<close> with the broadcast of \<^verbatim>\<open>np.where\<close> resolved:
  the filter has the shape of the input, so nothing is repeated.
\<close>

lemma forward_True_core:
  assumes "is_compiled self" and "shape_at (shape x) (- 1) = Inr d" and "units self = Some (int d)"
    and "wf_ndarray x"
    and "F = np_greater (fst (rng_random (generator self) (shape x))) (RATE self)"
  shows "forward self x True =
     (Inr (np_divide \<lparr>shape = shape x, flat = map2 (\<lambda>b v. if b then v else 0) (flat F) (flat x)\<rparr>
             (1 - RATE self)),
      self\<lparr>generator := snd (rng_random (generator self) (shape x)), dropout_filter := Some F\<rparr>)"
proof -
  have "shape F = shape x" and "wf_ndarray F"
    by (simp_all add: assms(5) np_greater_def rng_random_def wf_ndarray_def)
  then have w: "np_where0 F x
      = Inr \<lparr>shape = shape x, flat = map2 (\<lambda>b v. if b then v else 0) (flat F) (flat x)\<rparr>"
    using assms(4) by (intro np_where0_same)
  obtain fv g' where r: "rng_random (generator self) (shape x) = (fv, g')"
    by (cases "rng_random (generator self) (shape x)")
  then have F: "np_greater fv (RATE self) = F" by (simp add: assms(5))
  show ?thesis
    unfolding forward_def using assms(1-3) by (simp add: r F w Let_def)
qed

text \<open>
  Claim C4. On a compiled Dropout, a training-mode forward call on an input whose trailing
  dimension equals the units takes one draw of the generator per element of the input,
  keeps an element exactly when its draw exceeds the rate, zeroes every other element,
  divides every element of the result by one minus the rate, and caches the boolean
  filter (of the input's shape) in the layer; the generator has advanced by one draw per
  element.
\<close>

theorem forward_training:
  assumes "is_compiled self" and "shape_at (shape x) (- 1) = Inr d" and "units self = Some (int d)"
    and "wf_ndarray x"
  shows "forward self x True =
     (Inr \<lparr>shape = shape x,
           flat = map2 (\<lambda>u v. (if RATE self < u then v else 0) / (1 - RATE self))
                    (map (generator self) [0..<length (flat x)]) (flat x)\<rparr>,
      self\<lparr>generator := (\<lambda>i. generator self (i + length (flat x))),
           dropout_filter :=
             Some \<lparr>shape = shape x,
                   flat = map (\<lambda>u. RATE self < u) (map (generator self) [0..<length (flat x)])\<rparr>\<rparr>)"
proof -
  define draws where "draws = map (generator self) [0..<length (flat x)]"
  define F where "F = np_greater (fst (rng_random (generator self) (shape x))) (RATE self)"
  have n: "prod_list (shape x) = length (flat x)"
    using assms(4) by (simp add: wf_ndarray_def)
  have F': "F = \<lparr>shape = shape x, flat = map (\<lambda>u. RATE self < u) draws\<rparr>"
    by (simp add: F_def np_greater_def rng_random_def n draws_def)
  have g: "snd (rng_random (generator self) (shape x)) = (\<lambda>i. generator self (i + length (flat x)))"
    by (simp add: rng_random_def n)
  have d: "np_divide \<lparr>shape = shape x, flat = map2 (\<lambda>b v. if b then v else 0) (flat F) (flat x)\<rparr>
             (1 - RATE self)
      = \<lparr>shape = shape x,
         flat = map2 (\<lambda>u v. (if RATE self < u then v else 0) / (1 - RATE self)) draws (flat x)\<rparr>"
    by (simp add: np_divide_def F' zip_map1 split_def)
  have "forward self x True =
     (Inr \<lparr>shape = shape x,
           flat = map2 (\<lambda>u v. (if RATE self < u then v else 0) / (1 - RATE self)) draws (flat x)\<rparr>,
      self\<lparr>generator := (\<lambda>i. generator self (i + length (flat x))),
           dropout_filter := Some \<lparr>shape = shape x, flat = map (\<lambda>u. RATE self < u) draws\<rparr>\<rparr>)"
    using forward_True_core[OF assms F_def] unfolding d g unfolding F' .
  then show ?thesis unfolding draws_def .
qed

theorem forward_training_witness:
  "is_compiled ex_layer \<and> shape_at (shape \<lparr>shape = [1, 2], flat = [1, 1 :: real]\<rparr>) (- 1) = Inr 2
   \<and> units ex_layer = Some (int 2) \<and> wf_ndarray \<lparr>shape = [1, 2], flat = [1, 1 :: real]\<rparr>
   \<and> forward ex_layer \<lparr>shape = [1, 2], flat = [1, 1]\<rparr> True
       = (Inr \<lparr>shape = [1, 2], flat = [2, 0]\<rparr>, ex_trained)"
proof -
  have c: "is_compiled ex_layer" and u: "units ex_layer = Some (int 2)"
    by (simp_all add: ex_layer_def)
  have s: "shape_at (shape \<lparr>shape = [1, 2], flat = [1, 1 :: real]\<rparr>) (- 1) = Inr 2"
    by (simp add: shape_at_def)
  have w: "wf_ndarray \<lparr>shape = [1, 2], flat = [1, 1 :: real]\<rparr>"
    by (simp add: wf_ndarray_def)
  show ?thesis using c s u w forward_training[OF c s u w]
    by (simp add: ex_trained_def ex_layer_def ex_rng_def upt_conv_Cons)
qed

text \<open>
  \<^verbatim>\<open>backward\<close> when the cached filter has the shape of the gradients.
\<close>

lemma backward_cached:
  assumes "is_compiled self" and "units self = Some (int d)" and "shape_at (shape g) 1 = Inr d"
    and "dropout_filter self = Some f" and "shape f = shape g" and "wf_ndarray f" and "wf_ndarray g"
  shows "backward self g =
     (Inr \<lparr>shape = shape g,
           flat = map2 (\<lambda>keep v. if keep then v / (1 - RATE self) else 0) (flat f) (flat g)\<rparr>, self)"
proof -
  let ?r = "np_divide g (1 - RATE self)"
  have "wf_ndarray ?r" and "shape f = shape ?r"
    using assms(5,7) by (simp_all add: np_divide_def wf_ndarray_def)
  then have "np_where0 f ?r
      = Inr \<lparr>shape = shape ?r, flat = map2 (\<lambda>b v. if b then v else 0) (flat f) (flat ?r)\<rparr>"
    using assms(6) by (intro np_where0_same)
  moreover have "map2 (\<lambda>b v. if b then v else 0) (flat f) (flat ?r)
      = map2 (\<lambda>keep v. if keep then v / (1 - RATE self) else 0) (flat f) (flat g)"
    by (simp add: np_divide_def zip_map2 split_def)
  moreover have "shape ?r = shape g" by (simp add: np_divide_def)
  ultimately have "np_where0 f ?r
      = Inr \<lparr>shape = shape g,
             flat = map2 (\<lambda>keep v. if keep then v / (1 - RATE self) else 0) (flat f) (flat g)\<rparr>"
    by simp
  then show ?thesis
    unfolding backward_def using assms(1-4) by (simp add: Let_def)
qed

text \<open>
  Claim C5, as stated, fails: the zero pattern of the gradients that \<^verbatim>\<open>backward\<close>
  returns does not determine which elements the forward call zeroed. With rate 0.5 and
  draws 0.9 and 0.1, the forward call on [[1, 1]] keeps the first element (output 2) and
  zeroes the second; \<^verbatim>\<open>backward\<close> of [[0, 5]] then returns [[0, 0]]: the first gradient
  is zero although its element survived.
\<close>

theorem backward_zero_pattern_counterexample:
  "forward ex_layer \<lparr>shape = [1, 2], flat = [1, 1]\<rparr> True
     = (Inr \<lparr>shape = [1, 2], flat = [2, 0]\<rparr>, ex_trained)
   \<and> dropout_filter ex_trained = Some \<lparr>shape = [1, 2], flat = [True, False]\<rparr>
   \<and> backward ex_trained \<lparr>shape = [1, 2], flat = [0, 5]\<rparr>
     = (Inr \<lparr>shape = [1, 2], flat = [0, 0]\<rparr>, ex_trained)"
  by (intro conjI ex_forward ex_trained_filter ex_backward_zero)

text \<open>
  Claim C5, amended. Let a compiled Dropout with rate in (0, 1) make a training-mode
  forward call on \<open>x\<close>, and let the output gradients \<open>g\<close> have the shape of \<open>x\<close> with
  second dimension equal to the units. Then \<^verbatim>\<open>backward\<close> succeeds, leaves the layer as
  it is, and returns \<open>g\<close> divided by one minus the rate with every element whose cached
  filter entry is false set to zero. Every element the forward call zeroed has output zero
  and gradient zero; an element that survived has gradient zero exactly when its incoming
  output gradient is zero.
\<close>

theorem backward_after_forward:
  assumes "is_compiled self0" and "units self0 = Some (int d)"
    and "0 < RATE self0" and "RATE self0 < 1"
    and "wf_ndarray x" and "shape_at (shape x) (- 1) = Inr d"
    and "wf_ndarray g" and "shape g = shape x" and "shape_at (shape g) 1 = Inr d"
  shows "\<exists>y self f z.
      forward self0 x True = (Inr y, self) \<and> dropout_filter self = Some f \<and>
      backward self g = (Inr z, self) \<and>
      shape z = shape g \<and>
      flat z = map2 (\<lambda>keep v. if keep then v / (1 - RATE self0) else 0) (flat f) (flat g) \<and>
      length (flat f) = length (flat g) \<and> length (flat y) = length (flat g) \<and>
      (\<forall>i < length (flat g).
         (\<not> flat f ! i \<longrightarrow> flat y ! i = 0 \<and> flat z ! i = 0) \<and>
         (flat f ! i \<longrightarrow> (flat z ! i = 0 \<longleftrightarrow> flat g ! i = 0)))"
proof -
  define n where "n = length (flat x)"
  define r where "r = RATE self0"
  define f where "f = np_greater (fst (rng_random (generator self0) (shape x))) r"
  define y where "y = np_divide
      \<lparr>shape = shape x, flat = map2 (\<lambda>b v. if b then v else 0) (flat f) (flat x)\<rparr> (1 - r)"
  define self where "self = self0\<lparr>generator := snd (rng_random (generator self0) (shape x)),
      dropout_filter := Some f\<rparr>"
  define z where "z = \<lparr>shape = shape g,
      flat = map2 (\<lambda>keep v. if keep then v / (1 - r) else 0) (flat f) (flat g)\<rparr>"
  have px: "prod_list (shape x) = n" using assms(5) by (simp add: wf_ndarray_def n_def)
  have ng: "length (flat g) = n"
    using assms(7,8) px by (simp add: wf_ndarray_def)
  have fr: "f = np_greater (fst (rng_random (generator self0) (shape x))) (RATE self0)"
    by (simp add: f_def r_def)
  have fw: "forward self0 x True = (Inr y, self)"
    using forward_True_core[OF assms(1) assms(6) assms(2) assms(5) fr]
    by (simp only: y_def self_def r_def)
  have lf: "length (flat f) = n" and sfx: "shape f = shape x"
    by (simp_all add: f_def np_greater_def rng_random_def px)
  have wf_f: "wf_ndarray f" by (simp add: wf_ndarray_def lf sfx px)
  have c: "is_compiled self" and u: "units self = Some (int d)" and fl: "dropout_filter self = Some f"
    and rs: "RATE self = r"
    using assms(1,2) by (simp_all add: self_def r_def)
  have sf: "shape f = shape g" using assms(8) sfx by simp
  have bw: "backward self g = (Inr z, self)"
    using backward_cached[OF c u assms(9) fl sf wf_f assms(7)] by (simp only: z_def rs)
  have ly: "length (flat y) = n" by (simp add: y_def np_divide_def lf n_def)
  have r1: "1 - r \<noteq> 0" using assms(4) by (simp add: r_def)
  have pt: "\<forall>i < length (flat g).
         (\<not> flat f ! i \<longrightarrow> flat y ! i = 0 \<and> flat z ! i = 0) \<and>
         (flat f ! i \<longrightarrow> (flat z ! i = 0 \<longleftrightarrow> flat g ! i = 0))"
  proof (intro allI impI)
    fix i assume "i < length (flat g)"
    then have i: "i < n" by (simp add: ng)
    have zi: "flat z ! i = (if flat f ! i then flat g ! i / (1 - r) else 0)"
      using i by (simp add: z_def lf ng)
    have yi: "flat y ! i = (if flat f ! i then flat x ! i else 0) / (1 - r)"
      using i by (simp add: y_def np_divide_def lf n_def)
    show "(\<not> flat f ! i \<longrightarrow> flat y ! i = 0 \<and> flat z ! i = 0) \<and>
          (flat f ! i \<longrightarrow> (flat z ! i = 0 \<longleftrightarrow> flat g ! i = 0))"
      using r1 by (simp add: zi yi)
  qed
  have "shape z = shape g"
    and "flat z = map2 (\<lambda>keep v. if keep then v / (1 - RATE self0) else 0) (flat f) (flat g)"
    unfolding z_def r_def by simp_all
  with fw fl bw lf ly ng pt show ?thesis
    by (intro exI[of _ y] exI[of _ self] exI[of _ f] exI[of _ z]) simp
qed

theorem backward_after_forward_witness:
  "is_compiled ex_layer \<and> units ex_layer = Some (int 2) \<and> 0 < RATE ex_layer \<and> RATE ex_layer < 1
   \<and> wf_ndarray \<lparr>shape = [1, 2], flat = [1, 1 :: real]\<rparr>
   \<and> shape_at (shape \<lparr>shape = [1, 2], flat = [1, 1 :: real]\<rparr>) (- 1) = Inr 2
   \<and> wf_ndarray \<lparr>shape = [1, 2], flat = [3, 5 :: real]\<rparr>
   \<and> shape_at (shape \<lparr>shape = [1, 2], flat = [3, 5 :: real]\<rparr>) 1 = Inr 2
   \<and> (\<exists>z. backward ex_trained \<lparr>shape = [1, 2], flat = [3, 5]\<rparr> = (Inr z, ex_trained)
          \<and> shape z = [1, 2] \<and> flat z = [6, 0])"
proof -
  let ?x = "\<lparr>shape = [1, 2], flat = [1, 1 :: real]\<rparr>"
  let ?g = "\<lparr>shape = [1, 2], flat = [3, 5 :: real]\<rparr>"
  have c: "is_compiled ex_layer" and u: "units ex_layer = Some (int 2)"
    and r0: "0 < RATE ex_layer" and r1: "RATE ex_layer < 1"
    by (simp_all add: ex_layer_def)
  have wx: "wf_ndarray ?x" and wg: "wf_ndarray ?g" by (simp_all add: wf_ndarray_def)
  have sx: "shape_at (shape ?x) (- 1) = Inr 2" and sg: "shape_at (shape ?g) 1 = Inr 2"
    by (simp_all add: shape_at_def)
  have e: "shape ?g = shape ?x" by simp
  from backward_after_forward[OF c u r0 r1 wx sx wg e sg]
  obtain y self f z where
    fw: "forward ex_layer ?x True = (Inr y, self)" and fl: "dropout_filter self = Some f"
    and bw: "backward self ?g = (Inr z, self)" and sz: "shape z = shape ?g"
    and fz: "flat z = map2 (\<lambda>keep v. if keep then v / (1 - RATE ex_layer) else 0) (flat f) (flat ?g)"
    by blast
  from fw have self: "self = ex_trained" unfolding ex_forward by simp
  with fl have f: "f = \<lparr>shape = [1, 2], flat = [True, False]\<rparr>" by (simp add: ex_trained_filter)
  have "flat z = [6, 0]" using fz by (simp add: f ex_layer_def)
  with bw sz self have "\<exists>z. backward ex_trained ?g = (Inr z, ex_trained) \<and> shape z = [1, 2] \<and> flat z = [6, 0]"
    by auto
  with c u r0 r1 wx wg sx sg show ?thesis by simp
qed

text \<open>
  Claim C7, as stated, fails: a cached filter whose shape differs from the shape of the
  gradients is not refused when numpy can broadcast it. The filter cached by a forward
  call on a 1 x 2 input is applied, row by row, to gradients of shape 2 x 2.
\<close>

theorem backward_broadcast_counterexample:
  "forward ex_layer \<lparr>shape = [1, 2], flat = [1, 1]\<rparr> True
     = (Inr \<lparr>shape = [1, 2], flat = [2, 0]\<rparr>, ex_trained)
   \<and> dropout_filter ex_trained = Some \<lparr>shape = [1, 2], flat = [True, False]\<rparr>
   \<and> backward ex_trained \<lparr>shape = [2, 2], flat = [1, 2, 3, 4]\<rparr>
     = (Inr \<lparr>shape = [2, 2], flat = [2, 0, 6, 0]\<rparr>, ex_trained)"
  by (intro conjI ex_forward ex_trained_filter ex_backward_broadcast)

text \<open>
  Claim C7, amended. \<^verbatim>\<open>backward\<close> fails with the not-ready condition when the layer is
  not compiled. On a compiled layer and a two-dimensional array of output gradients it
  fails its own shape check exactly when the trailing dimension of the array disagrees with
  the units. When that check passes and a filter is cached, a filter whose shape cannot be
  broadcast against the shape of the gradients fails with numpy's shape mismatch, and a
  filter whose shape can be broadcast, equal or not, is accepted: the call succeeds with
  a result of the broadcast shape. No failure changes the layer.
\<close>

theorem backward_preconditions:
  "(\<not> is_compiled self \<longrightarrow>
      backward self g = (Inl (AttributeError ''Number of units must be defined.''), self)) \<and>
   (is_compiled self \<and> shape g = [b, d] \<longrightarrow>
      ((backward self g = (Inl (ValueError ''Number of input units must be consistent.''), self))
         \<longleftrightarrow> units self \<noteq> Some (int d)) \<and>
      (units self = Some (int d) \<and> dropout_filter self = Some f \<longrightarrow>
         (case broadcast_shapes (shape f) (shape g) of
            None \<Rightarrow> backward self g
                      = (Inl (ValueError ''operands could not be broadcast together''), self)
          | Some s \<Rightarrow> (\<exists>y. backward self g = (Inr y, self) \<and> shape y = s))))"
proof (intro conjI impI)
  assume "\<not> is_compiled self"
  then show "backward self g = (Inl (AttributeError ''Number of units must be defined.''), self)"
    by (simp add: backward_def)
next
  assume a: "is_compiled self \<and> shape g = [b, d]"
  then have s: "shape_at (shape g) 1 = Inr d" by (simp add: shape_at_def)
  show "(backward self g = (Inl (ValueError ''Number of input units must be consistent.''), self))
         \<longleftrightarrow> units self \<noteq> Some (int d)"
    using a s by (auto simp: backward_def np_where0_def Let_def split: option.splits)
next
  assume a: "is_compiled self \<and> shape g = [b, d]"
    and u: "units self = Some (int d) \<and> dropout_filter self = Some f"
  from a have s: "shape_at (shape g) 1 = Inr d" by (simp add: shape_at_def)
  have "backward self g = (np_where0 f (np_divide g (1 - RATE self)), self)"
    using a u s by (simp add: backward_def Let_def)
  moreover have "shape (np_divide g (1 - RATE self)) = shape g" by (simp add: np_divide_def)
  ultimately show "case broadcast_shapes (shape f) (shape g) of
            None \<Rightarrow> backward self g
                      = (Inl (ValueError ''operands could not be broadcast together''), self)
          | Some s \<Rightarrow> (\<exists>y. backward self g = (Inr y, self) \<and> shape y = s)"
    by (simp add: np_where0_def split: option.splits)
qed

theorem backward_preconditions_witness:
  "\<not> is_compiled ex_new
   \<and> backward ex_new \<lparr>shape = [2, 2], flat = [1, 2, 3, 4]\<rparr>
       = (Inl (AttributeError ''Number of units must be defined.''), ex_new)
   \<and> is_compiled ex_trained \<and> units ex_trained = Some (int 2)
   \<and> backward ex_trained \<lparr>shape = [2, 3], flat = [1, 2, 3, 4, 5, 6]\<rparr>
       = (Inl (ValueError ''Number of input units must be consistent.''), ex_trained)
   \<and> dropout_filter ex_trained = Some \<lparr>shape = [1, 2], flat = [True, False]\<rparr>
   \<and> broadcast_shapes [1, 2] [2, 2] = Some [2, 2]
   \<and> (\<exists>y. backward ex_trained \<lparr>shape = [2, 2], flat = [1, 2, 3, 4]\<rparr> = (Inr y, ex_trained)
          \<and> shape y = [2, 2])"
proof -
  let ?g = "\<lparr>shape = [2, 2], flat = [1, 2, 3, 4 :: real]\<rparr>"
  let ?h = "\<lparr>shape = [2, 3], flat = [1, 2, 3, 4, 5, 6 :: real]\<rparr>"
  let ?f = "\<lparr>shape = [1, 2], flat = [True, False]\<rparr>"
  have n: "\<not> is_compiled ex_new" by (simp add: ex_new_def)
  have c: "is_compiled ex_trained" and u: "units ex_trained = Some (int 2)"
    and u3: "units ex_trained \<noteq> Some (int 3)"
    by (simp_all add: ex_trained_def ex_layer_def)
  have bs: "broadcast_shapes [1, 2] [2, 2] = Some [2, 2]" by (simp add: broadcast_shapes_def)
  have 1: "backward ex_new ?g = (Inl (AttributeError ''Number of units must be defined.''), ex_new)"
    using backward_preconditions[of ex_new ?g] n by simp
  have 2: "backward ex_trained ?h
       = (Inl (ValueError ''Number of input units must be consistent.''), ex_trained)"
    using backward_preconditions[of ex_trained ?h 2 3] c u3 by simp
  have 3: "\<exists>y. backward ex_trained ?g = (Inr y, ex_trained) \<and> shape y = [2, 2]"
    using backward_preconditions[of ex_trained ?g 2 2 ?f] c u ex_trained_filter bs by simp
  from n c u 1 2 3 bs ex_trained_filter show ?thesis by simp
qed

section \<open>Properties of the model\<close>

subsection \<open>Construction\<close>

text \<open>
  A step of the second loop of the constructor changes the layer it compiles and no other.
  On a Dropout it always fails: either reading \<^verbatim>\<open>UNITS\<close> of the layer before fails, or
  the call of \<^verbatim>\<open>compile\<close> with the one argument does.
\<close>

lemma connect_layer_other:
  "connect_layer env ls idx = Inr ls' \<Longrightarrow> k \<noteq> idx \<Longrightarrow> length ls' = length ls \<and> ls' ! k = ls ! k"
  by (auto simp: connect_layer_def split: if_splits sum.splits prod.splits)

lemma connect_layer_dropout:
  "0 < k \<Longrightarrow> ls ! k = DropoutL d \<Longrightarrow> \<exists>e. connect_layer env ls k = Inl e"
  by (auto simp: connect_layer_def layer_compile_def split: sum.splits prod.splits)

lemma connect_layers_dropout:
  "k \<in> set idxs \<Longrightarrow> 0 < k \<Longrightarrow> ls ! k = DropoutL d \<Longrightarrow> \<exists>e. connect_layers env ls idxs = Inl e"
proof (induction idxs arbitrary: ls)
  case Nil
  then show ?case by simp
next
  case (Cons idx idxs)
  show ?case
  proof (cases "connect_layer env ls idx")
    case (Inl e)
    then show ?thesis by simp
  next
    case (Inr ls')
    show ?thesis
    proof (cases "k = idx")
      case True
      with connect_layer_dropout[OF Cons.prems(2,3), of env] Inr show ?thesis by simp
    next
      case False
      with connect_layer_other[OF Inr False] Cons.prems have "k \<in> set idxs" "ls' ! k = DropoutL d"
        by auto
      from Cons.IH[OF this(1) Cons.prems(2) this(2)] Inr show ?thesis by simp
    qed
  qed
qed

lemma check_layers_first:
  "check_layers env 0 (l # ls) = Inr u \<Longrightarrow> is_InputLayer env l"
  by (auto split: if_splits)

text \<open>
  Whatever the absent layer classes do, no list of layers that holds a Dropout gets through
  the constructor.
\<close>

lemma Model_init_no_dropout:
  assumes "Model_init env loss ls = Inr m"
  shows "DropoutL d \<notin> set ls"
proof
  assume "DropoutL d \<in> set ls"
  then obtain k where k: "k < length ls" "ls ! k = DropoutL d" by (auto simp: in_set_conv_nth)
  from assms obtain u where c: "check_layers env 0 ls = Inr u"
    by (auto simp: Model_init_def split: sum.splits)
  from assms obtain ls' where cn: "connect_layers env ls [0..<length ls] = Inr ls'"
    by (auto simp: Model_init_def split: sum.splits)
  show False
  proof (cases k)
    case 0
    with k c show False by (cases ls) (auto simp: is_InputLayer_def split: if_splits)
  next
    case (Suc j)
    with k have "k \<in> set [0..<length ls]" "0 < k" by auto
    from connect_layers_dropout[OF this k(2), of env] cn show False by simp
  qed
qed

text \<open>
  A forward pass of the model succeeds only when no layer is a Dropout, whose
  \<^verbatim>\<open>forward\<close> cannot be called with the inputs alone.
\<close>

lemma predict_layers_no_dropout:
  "predict_layers env ls x = (Inr y, ls') \<Longrightarrow> DropoutL d \<notin> set ls"
proof (induction ls arbitrary: x ls')
  case Nil
  then show ?case by simp
next
  case (Cons l ls)
  from Cons.prems obtain out l' rest' where
    f: "layer_forward env l x [] = (Inr out, l')" and p: "predict_layers env ls out = (Inr y, rest')"
    by (auto split: prod.splits sum.splits)
  from f have "l \<noteq> DropoutL d" by (auto simp: layer_forward_def)
  with Cons.IH[OF p] show ?case by simp
qed


text \<open>
  Claim C3. The constructor does not call \<^verbatim>\<open>compile\<close> with the position of the layer
  and the width of the layer before it: it passes the width alone. On the model of the
  input layer of width 2 followed by a Dropout of rate 0.5 the call of
  \<^verbatim>\<open>Dropout.compile\<close> lacks its second argument and the construction raises
  \<^verbatim>\<open>TypeError\<close>, where the claim has the Dropout compiled with two units.
\<close>

theorem Model_init_dropout:
  "Model_init ex_env ex_loss [ExtL (InputLayer 2), DropoutL ex_new]
     = Inl (TypeError ''compile() missing 1 required positional argument: input_units'')"
  by (simp add: Model_init_def connect_layer_def layer_simps ex_env_def upt_conv_Cons)

lemma Model_init_input_only:
  "Model_init ex_env ex_loss [ExtL (InputLayer 2)] = Inr ex_model"
  by (simp add: Model_init_def connect_layer_def layer_simps ex_env_def ex_model_def)


subsection \<open>Inference\<close>



subsection \<open>Training\<close>



text \<open>
  The batches of an epoch, for a dataset that is not empty: one batch when the requested
  batch size exceeds half the number of examples, and otherwise the number of examples
  divided by the batch size, rounded down.
\<close>

lemma batches_per_epoch:
  assumes "1 \<le> n_examples" and "1 \<le> batch_size"
  shows "batch_range n_examples (effective_batch_size n_examples batch_size)
     = Inr [0..<(if int n_examples < 2 * batch_size then 1 else n_examples div nat batch_size)]"
proof (cases "int n_examples < 2 * batch_size")
  case True
  then have "real n_examples / 2 < real_of_int batch_size" by simp
  then have "effective_batch_size n_examples batch_size = int n_examples"
    by (simp add: effective_batch_size_def)
  with assms True show ?thesis by (simp add: batch_range_def)
next
  case False
  then have "\<not> real n_examples / 2 < real_of_int batch_size" by simp
  then have "effective_batch_size n_examples batch_size = batch_size"
    by (simp add: effective_batch_size_def)
  moreover have "nat (int n_examples div batch_size) = n_examples div nat batch_size"
    using assms by (simp add: nat_div_distrib)
  ultimately show ?thesis using assms False by (simp add: batch_range_def)
qed


text \<open>
  Claim C8. On an empty dataset the batch size is replaced by the number of examples,
  zero, and the count of batches \<^verbatim>\<open>n_examples // batch_size\<close> divides by zero:
  \<^verbatim>\<open>fit\<close> raises \<^verbatim>\<open>ZeroDivisionError\<close> in the first epoch, where the claim has one
  batch per epoch.
\<close>

theorem fit_empty_dataset:
  "fit ex_env ex_model ex_empty ex_empty 1 1 (1 / 10) (\<lambda>epoch. []) (\<lambda>i. 0)
     = (Inl (ZeroDivisionError ''integer division or modulo by zero''), ex_model)"
  by (simp add: fit_def shape_at_def effective_batch_size_def np_empty_def epoch_batches_def take_rows_def
      batch_range_def ex_simps)










end
